theory Spec2Isabelle
  imports Complex_Main "HOL-Library.Sublist"
begin

section \<open>Values of the script\<close>

text \<open>
  The dashboard script \<^verbatim>\<open>finance_project.py\<close> reads a decoded JSON body and hands
  it to pandas and to Streamlit widgets. A decoded JSON object is a Python \<^verbatim>\<open>dict\<close>,
  which keeps the insertion order of its keys: it is an association list here, its
  keys pairwise distinct. JSON numbers are exact rationals.
\<close>

datatype json =
    JNull
  | JBool bool
  | JNum rat
  | JStr string
  | JArr "json list"
  | JObj "(string \<times> json) list"

text \<open>The exception classes the script and the library calls it makes can raise.\<close>

datatype py_error =
    AttributeError
  | ImportError
  | IndexError
  | KeyError
  | StopException
  | StreamlitAPIException
  | TypeError
  | ValueError
  | OtherError string

text \<open>
  A call either returns a value or raises. \<open>Not_modelled\<close> marks the calls into
  pandas whose behaviour this development does not describe (see \<open>from_dict_index\<close>).
\<close>

datatype 'a outcome = Returns 'a | Raises py_error | Not_modelled

fun bind :: "'a outcome \<Rightarrow> ('a \<Rightarrow> 'b outcome) \<Rightarrow> 'b outcome" where
  "bind (Returns x) f = f x"
| "bind (Raises e) f = Raises e"
| "bind Not_modelled f = Not_modelled"

text \<open>Python's truth value of a decoded JSON value (\<^verbatim>\<open>if raw_data:\<close>).\<close>

fun truthy :: "json \<Rightarrow> bool" where
  "truthy JNull = False"
| "truthy (JBool b) = b"
| "truthy (JNum r) = (r \<noteq> 0)"
| "truthy (JStr s) = (s \<noteq> [])"
| "truthy (JArr xs) = (xs \<noteq> [])"
| "truthy (JObj kvs) = (kvs \<noteq> [])"

section \<open>Column renaming (line 102)\<close>

text \<open>
  \<^verbatim>\<open>s.split(sep)\<close> for a non-empty separator: the pieces between the leftmost,
  non-overlapping occurrences of \<open>sep\<close>. Python raises \<^verbatim>\<open>ValueError\<close> on an empty
  separator; the script only ever passes \<^verbatim>\<open>'. '\<close>, and \<open>py_split\<close> returns the
  string unsplit there.
\<close>

function py_split :: "string \<Rightarrow> string \<Rightarrow> string list" where
  "py_split sep s =
     (if sep = [] then [s]
      else if s = [] then [[]]
      else if prefix sep s then [] # py_split sep (drop (length sep) s)
      else (case py_split sep (tl s) of
              [] \<Rightarrow> [[hd s]]
            | p # ps \<Rightarrow> (hd s # p) # ps))"
  by pat_completeness auto
termination
  by (relation "measure (\<lambda>(sep, s). length s)") auto

declare py_split.simps [simp del]

text \<open>
  A column label is a string (a JSON key) or an integer (the positions pandas uses when
  it has no names).
\<close>

datatype label = L_str string | L_int int

text \<open>
  \<^verbatim>\<open>c.split('. ')[1]\<close>: the second piece, \<^verbatim>\<open>IndexError\<close> when there is none, and
  \<^verbatim>\<open>AttributeError\<close> on a label that is not a string.
\<close>

fun strip_prefix :: "label \<Rightarrow> label outcome" where
  "strip_prefix (L_int i) = Raises AttributeError"
| "strip_prefix (L_str c) =
     (case py_split ''. '' c of
        p0 # p1 # ps \<Rightarrow> Returns (L_str p1)
      | _ \<Rightarrow> Raises IndexError)"

text \<open>
  The list comprehension \<^verbatim>\<open>[c.split('. ')[1] for c in df.columns]\<close>: left to right,
  the first exception ends it.
\<close>

fun rename_columns :: "label list \<Rightarrow> label list outcome" where
  "rename_columns [] = Returns []"
| "rename_columns (c # cs) =
     bind (strip_prefix c) (\<lambda>c'. bind (rename_columns cs) (\<lambda>cs'. Returns (c' # cs')))"

section \<open>Data frames\<close>

text \<open>
  The script builds its tables with pandas, which is not part of the repository. This
  section states the behaviour of the pandas calls the script makes, as pandas 1.x and
  2.x implement them, on decoded JSON.

  A cell holds a raw decoded value (\<open>Obj\<close>), a number, or pandas' missing marker
  \<open>NaN\<close>. Numbers are exact rationals: the rounding of a decimal string to binary64,
  overflow and the infinities are outside this model.
\<close>

datatype cell = Obj json | Number rat | NaN

record dataframe =
  index_name :: "string option"
  index :: "label list"
  columns :: "label list"
  cells :: "cell list list"

definition empty_frame :: dataframe where
  "empty_frame = \<lparr>index_name = None, index = [], columns = [], cells = []\<rparr>"

text \<open>
  Order-preserving union (\<^verbatim>\<open>fast_unique_multiple_list_gen\<close> with \<^verbatim>\<open>sort=False\<close>):
  every element once, in first-seen order.
\<close>

fun fast_unique :: "'a list \<Rightarrow> 'a list \<Rightarrow> 'a list" where
  "fast_unique seen [] = seen"
| "fast_unique seen (x # xs) =
     (if x \<in> set seen then fast_unique seen xs else fast_unique (seen @ [x]) xs)"

text \<open>\<^verbatim>\<open>s.items()\<close> on a row of the payload: only a mapping has items.\<close>

fun row_items :: "json \<Rightarrow> (string \<times> json) list outcome" where
  "row_items (JObj kvs) = Returns kvs"
| "row_items v = Raises AttributeError"

fun nested_items :: "(string \<times> json) list \<Rightarrow> (string \<times> (string \<times> json) list) list outcome" where
  "nested_items [] = Returns []"
| "nested_items ((r, s) # rest) =
     bind (row_items s) (\<lambda>kvs. bind (nested_items rest) (\<lambda>rows. Returns ((r, kvs) # rows)))"

text \<open>
  \<^verbatim>\<open>_from_nested_dict\<close> turns the mapping row \<open>\<rightarrow>\<close> (field \<open>\<rightarrow>\<close> value) into the mapping
  field \<open>\<rightarrow>\<close> (row \<open>\<rightarrow>\<close> value): the fields in first-seen order, and under each field the
  rows that carry it, in source order. The frame's index is the order-preserving union
  of those row lists, column after column; a cell with no value is \<open>NaN\<close>.
\<close>

definition nested_columns :: "(string \<times> (string \<times> json) list) list \<Rightarrow> string list" where
  "nested_columns rows = fast_unique [] (concat (map (\<lambda>(r, kvs). map fst kvs) rows))"

definition column_dict :: "string \<Rightarrow> (string \<times> (string \<times> json) list) list \<Rightarrow> (string \<times> json) list" where
  "column_dict c rows = List.map_filter (\<lambda>(r, kvs). map_option (Pair r) (map_of kvs c)) rows"

definition nested_index :: "(string \<times> (string \<times> json) list) list \<Rightarrow> string list" where
  "nested_index rows =
     fast_unique [] (concat (map (\<lambda>c. map fst (column_dict c rows)) (nested_columns rows)))"

definition nested_frame :: "(string \<times> (string \<times> json) list) list \<Rightarrow> dataframe" where
  "nested_frame rows =
     \<lparr>index_name = None,
      index = map L_str (nested_index rows),
      columns = map L_str (nested_columns rows),
      cells = map (\<lambda>r. map (\<lambda>c. case map_of (column_dict c rows) r of
                                     Some v \<Rightarrow> Obj v
                                   | None \<Rightarrow> NaN)
                            (nested_columns rows))
                  (nested_index rows)\<rparr>"

text \<open>
  \<^verbatim>\<open>pd.DataFrame.from_dict(data, orient='index')\<close>. It starts with \<^verbatim>\<open>len(data)\<close> and,
  when that is positive, looks at \<^verbatim>\<open>data.values()\<close>: a payload without a length raises
  \<^verbatim>\<open>TypeError\<close>, a non-empty string or list \<^verbatim>\<open>AttributeError\<close>. A mapping whose first
  value is a mapping goes through \<^verbatim>\<open>_from_nested_dict\<close>. A mapping whose first value
  is anything else is handed to the general constructor, whose result depends on the
  pandas and numpy versions: it is \<open>Not_modelled\<close>.
\<close>

fun from_dict_index :: "json \<Rightarrow> dataframe outcome" where
  "from_dict_index (JObj kvs) =
     (case kvs of
        [] \<Rightarrow> Returns empty_frame
      | (r, v) # rest \<Rightarrow>
          (case v of
             JObj s \<Rightarrow> bind (nested_items kvs) (\<lambda>rows. Returns (nested_frame rows))
           | _ \<Rightarrow> Not_modelled))"
| "from_dict_index (JArr xs) = (if xs = [] then Returns empty_frame else Raises AttributeError)"
| "from_dict_index (JStr s) = (if s = [] then Raises ValueError else Raises AttributeError)"
| "from_dict_index v = Raises TypeError"

text \<open>\<^verbatim>\<open>df.columns = new\<close>: pandas refuses a list of another length.\<close>

definition set_columns :: "label list \<Rightarrow> dataframe \<Rightarrow> dataframe outcome" where
  "set_columns new df =
     (if length new = length (columns df) then Returns (df\<lparr>columns := new\<rparr>)
      else Raises ValueError)"

text \<open>\<^verbatim>\<open>df.head(n)\<close>: the first \<open>n\<close> rows.\<close>

definition head :: "nat \<Rightarrow> dataframe \<Rightarrow> dataframe" where
  "head n df = df\<lparr>index := take n (index df), cells := take n (cells df)\<rparr>"

text \<open>
  \<^verbatim>\<open>df[c]\<close>: every column labelled \<open>c\<close>, all rows; \<^verbatim>\<open>KeyError\<close> when there is none.
  (pandas returns a Series for one such column and a frame for several; both are a
  frame here.)
\<close>

definition getitem_column :: "label \<Rightarrow> dataframe \<Rightarrow> dataframe outcome" where
  "getitem_column c df =
     (if c \<in> set (columns df)
      then Returns (df\<lparr>columns := filter (\<lambda>x. x = c) (columns df),
                       cells := map (\<lambda>row. map snd (filter (\<lambda>(x, v). x = c) (zip (columns df) row)))
                                    (cells df)\<rparr>)
      else Raises KeyError)"

text \<open>
  \<^verbatim>\<open>pd.DataFrame([record])\<close>, a frame of one row labelled \<open>0\<close>: a mapping gives one
  column per key, a list one column per element, any other value a single column.
\<close>

fun frame_of_record :: "json \<Rightarrow> dataframe" where
  "frame_of_record (JObj kvs) =
     \<lparr>index_name = None, index = [L_int 0], columns = map (L_str \<circ> fst) kvs,
      cells = [map (Obj \<circ> snd) kvs]\<rparr>"
| "frame_of_record (JArr xs) =
     \<lparr>index_name = None, index = [L_int 0], columns = map (L_int \<circ> int) [0..<length xs],
      cells = [map Obj xs]\<rparr>"
| "frame_of_record v =
     \<lparr>index_name = None, index = [L_int 0], columns = [L_int 0], cells = [[Obj v]]\<rparr>"

text \<open>\<^verbatim>\<open>df.T\<close>: rows and columns exchanged.\<close>

definition transpose_frame :: "dataframe \<Rightarrow> dataframe" where
  "transpose_frame df =
     \<lparr>index_name = None, index = columns df, columns = index df,
      cells = map (\<lambda>j. map (\<lambda>row. row ! j) (cells df)) [0..<length (columns df)]\<rparr>"

subsection \<open>Numeric coercion (lines 103, 169, 198)\<close>

text \<open>
  \<^verbatim>\<open>pd.to_numeric(column, errors='coerce')\<close>, cell by cell. A string is read as a
  decimal number: optional blanks around it, an optional sign, digits with an optional
  fraction, an optional exponent. Under \<^verbatim>\<open>errors='coerce'\<close> whatever cannot be read
  becomes \<open>NaN\<close>. The value is the exact decimal; a string that spells an infinity,
  which pandas reads as a float, is \<open>NaN\<close> here.
\<close>

definition is_digit :: "char \<Rightarrow> bool" where
  "is_digit c = (48 \<le> (of_char c :: nat) \<and> (of_char c :: nat) \<le> 57)"

definition is_space :: "char \<Rightarrow> bool" where
  "is_space c = ((of_char c :: nat) = 32 \<or> (9 \<le> (of_char c :: nat) \<and> (of_char c :: nat) \<le> 13))"

definition digits_value :: "string \<Rightarrow> nat" where
  "digits_value ds = foldl (\<lambda>a c. 10 * a + ((of_char c :: nat) - 48)) 0 ds"

definition strip :: "string \<Rightarrow> string" where
  "strip s = rev (dropWhile is_space (rev (dropWhile is_space s)))"

fun split_sign :: "string \<Rightarrow> bool \<times> string" where
  "split_sign [] = (False, [])"
| "split_sign (c # cs) =
     (if c = CHR ''-'' then (True, cs)
      else if c = CHR ''+'' then (False, cs)
      else (False, c # cs))"

fun parse_exponent :: "string \<Rightarrow> int option" where
  "parse_exponent [] = Some 0"
| "parse_exponent (c # cs) =
     (if c = CHR ''e'' \<or> c = CHR ''E'' then
        (case split_sign cs of
           (neg, ds) \<Rightarrow>
             if ds \<noteq> [] \<and> list_all is_digit ds
             then Some (if neg then - int (digits_value ds) else int (digits_value ds))
             else None)
      else None)"

definition scale10 :: "rat \<Rightarrow> int \<Rightarrow> rat" where
  "scale10 m e = (if 0 \<le> e then m * 10 ^ nat e else m / 10 ^ nat (- e))"

definition parse_number :: "string \<Rightarrow> rat option" where
  "parse_number s =
     (case split_sign (strip s) of
        (neg, s1) \<Rightarrow>
          let ip = takeWhile is_digit s1;
              s2 = dropWhile is_digit s1;
              fp = (case s2 of [] \<Rightarrow> [] | c # cs \<Rightarrow> if c = CHR ''.'' then takeWhile is_digit cs else []);
              s3 = (case s2 of [] \<Rightarrow> [] | c # cs \<Rightarrow> if c = CHR ''.'' then dropWhile is_digit cs else s2)
          in if ip = [] \<and> fp = [] then None
             else (case parse_exponent s3 of
                     None \<Rightarrow> None
                   | Some e \<Rightarrow>
                       let m = of_nat (digits_value (ip @ fp)) / 10 ^ length fp
                       in Some (scale10 (if neg then - m else m) e)))"

fun to_numeric :: "cell \<Rightarrow> cell" where
  "to_numeric (Obj (JStr s)) = (case parse_number s of Some r \<Rightarrow> Number r | None \<Rightarrow> NaN)"
| "to_numeric (Obj (JNum r)) = Number r"
| "to_numeric (Obj (JBool b)) = Number (if b then 1 else 0)"
| "to_numeric (Obj v) = NaN"
| "to_numeric (Number r) = Number r"
| "to_numeric NaN = NaN"

text \<open>\<^verbatim>\<open>df.apply(pd.to_numeric, errors='coerce')\<close>: every column, so every cell.\<close>

definition apply_to_numeric :: "dataframe \<Rightarrow> dataframe" where
  "apply_to_numeric df = df\<lparr>cells := map (map to_numeric) (cells df)\<rparr>"

section \<open>The script\<close>

text \<open>
  What the script shows is the list of the Streamlit calls it makes, in order, each
  with its argument. How Streamlit draws a widget is not modelled. A run ends by
  returning, or by an exception nobody catches; \<^verbatim>\<open>st.stop()\<close> ends it with
  Streamlit's \<open>StopException\<close>.
\<close>

datatype ui =
    St_caption string
  | St_error string
  | St_warning string
  | St_json json
  | St_dataframe dataframe
  | St_table dataframe
  | St_line_chart dataframe
  | St_spinner string

type_synonym run = "ui list \<times> unit outcome"

text \<open>Continue with the value a call returned; an exception ends the run.\<close>

fun on_return :: "'a outcome \<Rightarrow> ('a \<Rightarrow> run) \<Rightarrow> run" where
  "on_return (Returns x) f = f x"
| "on_return (Raises e) f = ([], Raises e)"
| "on_return Not_modelled f = ([], Not_modelled)"

subsection \<open>Resolving the API key (lines 6 to 20)\<close>

text \<open>
  The two sources are the environment of the script: \<open>secrets_lookup\<close> is what
  \<^verbatim>\<open>st.secrets["alphavantage"]["api_key"]\<close> does, \<open>local_import\<close> what
  \<^verbatim>\<open>from API_KEY import api_key\<close> does; each returns the key or raises.
\<close>

definition api_key_missing :: string where
  "api_key_missing =
     ''ERROR: API key not found. Please create an API_KEY.py file for local testing or configure secrets for cloud deployment.''"

definition resolve_api_key :: "py_error + string \<Rightarrow> py_error + string \<Rightarrow> ui list \<times> string outcome" where
  "resolve_api_key secrets_lookup local_import =
     (case secrets_lookup of
        Inr api_key \<Rightarrow> ([St_caption '' Running with Streamlit Secrets (Cloud)''], Returns api_key)
      | Inl e \<Rightarrow>
          if e = StreamlitAPIException \<or> e = KeyError then
            (case local_import of
               Inr api_key \<Rightarrow> ([St_caption '' Running with local API_KEY.py''], Returns api_key)
             | Inl e' \<Rightarrow>
                 if e' = ImportError then ([St_error api_key_missing], Raises StopException)
                 else ([], Raises e'))
          else ([], Raises e))"

text \<open>
  The whole script: the key is resolved first, and only a run that has a key reaches
  the rest of the script (the page layout and the endpoint logic, lines 22 to 237),
  which is given the key.
\<close>

definition script :: "py_error + string \<Rightarrow> py_error + string \<Rightarrow> (string \<Rightarrow> run) \<Rightarrow> run" where
  "script secrets_lookup local_import endpoint_logic =
     (case resolve_api_key secrets_lookup local_import of
        (shown, Returns api_key) \<Rightarrow>
          (shown @ fst (endpoint_logic api_key), snd (endpoint_logic api_key))
      | (shown, Raises e) \<Rightarrow> (shown, Raises e)
      | (shown, Not_modelled) \<Rightarrow> (shown, Not_modelled))"

subsection \<open>Fetching (lines 67 to 80)\<close>

text \<open>
  The HTTP exchange is the environment: it yields a decoded body, or fails with a
  \<^verbatim>\<open>RequestException\<close> whose text is shown. A failed fetch returns \<^verbatim>\<open>None\<close>, which
  is \<open>JNull\<close>.
\<close>

datatype http_result = Body json | Request_failed string

definition fetch_alpha_vantage_data :: "http_result \<Rightarrow> string \<Rightarrow> ui list \<times> json" where
  "fetch_alpha_vantage_data response spin_text =
     (case response of
        Body data_json \<Rightarrow> ([St_spinner (''Working on it... '' @ spin_text)], data_json)
      | Request_failed err \<Rightarrow>
          ([St_spinner (''Working on it... '' @ spin_text),
            St_error (''Ouch! An error happened while fetching data: '' @ err)], JNull))"

subsection \<open>Python's operations on the decoded body\<close>

text \<open>\<^verbatim>\<open>key in data\<close>, \<^verbatim>\<open>data[key]\<close> and \<^verbatim>\<open>data.get(key, default)\<close>.\<close>

fun py_contains :: "string \<Rightarrow> json \<Rightarrow> bool outcome" where
  "py_contains key (JObj kvs) = Returns (key \<in> set (map fst kvs))"
| "py_contains key (JArr xs) = Returns (JStr key \<in> set xs)"
| "py_contains key (JStr s) = Returns (sublist key s)"
| "py_contains key v = Raises TypeError"

fun py_getitem :: "json \<Rightarrow> string \<Rightarrow> json outcome" where
  "py_getitem (JObj kvs) key = (case map_of kvs key of Some v \<Rightarrow> Returns v | None \<Rightarrow> Raises KeyError)"
| "py_getitem v key = Raises TypeError"

fun py_get :: "json \<Rightarrow> string \<Rightarrow> json \<Rightarrow> json outcome" where
  "py_get (JObj kvs) key dflt = (case map_of kvs key of Some v \<Rightarrow> Returns v | None \<Rightarrow> Returns dflt)"
| "py_get v key dflt = Raises AttributeError"

subsection \<open>TIME_SERIES_DAILY (lines 94 to 112)\<close>

text \<open>Lines 98 to 103: the table built from the payload.\<close>

definition time_series_daily_frame :: "json \<Rightarrow> dataframe outcome" where
  "time_series_daily_frame time_series =
     bind (from_dict_index time_series) (\<lambda>df.
     bind (rename_columns (columns df)) (\<lambda>renamed.
     bind (set_columns renamed (df\<lparr>index_name := Some ''Date''\<rparr>)) (\<lambda>df.
     Returns (apply_to_numeric df))))"

definition time_series_daily_branch :: "json \<Rightarrow> run" where
  "time_series_daily_branch raw_data =
     (if truthy raw_data then
        on_return (py_contains ''Time Series (Daily)'' raw_data) (\<lambda>present.
          if present then
            on_return (py_getitem raw_data ''Time Series (Daily)'') (\<lambda>time_series.
            on_return (time_series_daily_frame time_series) (\<lambda>df.
              case getitem_column (L_str ''close'') df of
                Returns close \<Rightarrow> ([St_dataframe (head 20 df), St_line_chart close], Returns ())
              | Raises e \<Rightarrow> ([St_dataframe (head 20 df)], Raises e)
              | Not_modelled \<Rightarrow> ([St_dataframe (head 20 df)], Not_modelled)))
          else
            ([St_warning ''Data structure was weird. Maybe the symbol is wrong?'',
              St_json raw_data], Returns ()))
      else ([], Returns ()))"

subsection \<open>GLOBAL_QUOTE (lines 121 to 130)\<close>

definition global_quote_frame :: "json \<Rightarrow> dataframe outcome" where
  "global_quote_frame quote =
     set_columns [L_str ''Value''] (transpose_frame (frame_of_record quote))"

definition global_quote_branch :: "json \<Rightarrow> run" where
  "global_quote_branch data =
     (if truthy data then
        on_return (py_get data ''Global Quote'' (JObj [])) (\<lambda>quote.
          if truthy quote then
            on_return (global_quote_frame quote) (\<lambda>df. ([St_table df], Returns ()))
          else
            ([St_error ''Could not fetch quote. Check symbol.'', St_json data], Returns ()))
      else ([], Returns ()))"

subsection \<open>SMA and RSI (lines 161 to 176 and 190 to 205)\<close>

text \<open>Lines 166 to 169 and 195 to 198: the table built from the payload.\<close>

definition technical_indicator_frame :: "string \<Rightarrow> json \<Rightarrow> dataframe outcome" where
  "technical_indicator_frame the_endpoint ts =
     bind (from_dict_index ts) (\<lambda>df.
     bind (set_columns [L_str the_endpoint] (df\<lparr>index_name := Some ''Date''\<rparr>)) (\<lambda>df.
     Returns (apply_to_numeric df)))"

text \<open>\<^verbatim>\<open>str(n)\<close> for the time period typed into the sidebar (an integer, at least 1).\<close>

function str_nat :: "nat \<Rightarrow> string" where
  "str_nat n =
     (if n < 10 then [char_of (48 + n)]
      else str_nat (n div 10) @ [char_of (48 + n mod 10)])"
  by pat_completeness auto
termination
  by (relation "measure id") auto

declare str_nat.simps [simp del]

definition sma_branch :: "nat \<Rightarrow> json \<Rightarrow> run" where
  "sma_branch time_period data =
     (if truthy data then
        on_return (py_get data ''Technical Analysis: SMA'' (JObj [])) (\<lambda>ts.
          if truthy ts then
            on_return (technical_indicator_frame ''SMA'' ts) (\<lambda>df.
              ([St_dataframe (head 20 df), St_line_chart df,
                St_caption (''The chart shows the '' @ str_nat time_period @
                            ''-day Simple Moving Average.'')], Returns ()))
          else
            ([St_error ''Could not calculate SMA. Check parameters.'', St_json data], Returns ()))
      else ([], Returns ()))"

definition rsi_caption :: string where
  "rsi_caption =
     ''RSI values typically range from 0 to 100. Values below 30 suggest the asset might be **oversold**, and values above 70 suggest it might be **overbought**.''"

definition rsi_branch :: "json \<Rightarrow> run" where
  "rsi_branch data =
     (if truthy data then
        on_return (py_get data ''Technical Analysis: RSI'' (JObj [])) (\<lambda>ts.
          if truthy ts then
            on_return (technical_indicator_frame ''RSI'' ts) (\<lambda>df.
              ([St_dataframe (head 20 df), St_line_chart df, St_caption rsi_caption], Returns ()))
          else
            ([St_error ''Could not calculate RSI. Check parameters.'', St_json data], Returns ()))
      else ([], Returns ()))"

section \<open>Time-series payloads\<close>

text \<open>
  The payload of a time-series endpoint is a mapping from row keys (dates) to rows. It is
  a valid time series when every row is a mapping from fields to raw values; the row keys
  of a JSON object, and the fields of a row, are distinct.

  It is uniform when, in addition, all rows carry the same, non-empty set of fields: the
  shape the API returns. pandas takes the rows of the table from the rows found under each
  field, field after field, so the rows of a uniform payload are all found under its first
  field, in the order of the payload.
\<close>

fun field_names :: "json \<Rightarrow> string list option" where
  "field_names (JObj kvs) = Some (map fst kvs)"
| "field_names v = None"


definition uniform_time_series :: "(string \<times> json) list \<Rightarrow> bool" where
  "uniform_time_series ts \<longleftrightarrow>
     distinct (map fst ts) \<and>
     (case ts of
        [] \<Rightarrow> True
      | (r0, v0) # rest \<Rightarrow>
          (case field_names v0 of
             None \<Rightarrow> False
           | Some fs0 \<Rightarrow>
               fs0 \<noteq> [] \<and>
               list_all (\<lambda>(r, v). case field_names v of
                                    None \<Rightarrow> False
                                  | Some fs \<Rightarrow> set fs = set fs0) rest))"

section \<open>Properties of splitting\<close>

lemma py_split_not_Nil: "py_split sep s \<noteq> []"
  by (subst py_split.simps) (simp split: list.splits)

lemma py_split_first_prefix:
  "py_split sep s = p # ps \<Longrightarrow> prefix p s"
proof (induction sep s arbitrary: p ps rule: py_split.induct)
  case (1 sep s)
  show ?case
  proof (cases "sep = [] \<or> s = [] \<or> prefix sep s")
    case True
    with "1.prems" show ?thesis
      by (subst (asm) py_split.simps) (auto split: if_splits)
  next
    case False
    then obtain c cs where s: "s = c # cs" by (cases s) auto
    obtain q qs where q: "py_split sep cs = q # qs"
      using py_split_not_Nil [of sep cs] by (cases "py_split sep cs") auto
    from False s have "prefix q cs"
      using "1.IH"(2) [of q qs] q by simp
    moreover from "1.prems" False s q have "p = c # q"
      by (subst (asm) py_split.simps) simp
    ultimately show ?thesis using s by simp
  qed
qed

lemma py_split_Nil: "sep \<noteq> [] \<Longrightarrow> py_split sep [] = [[]]"
  by (subst py_split.simps) simp

lemma py_split_match:
  "sep \<noteq> [] \<Longrightarrow> s \<noteq> [] \<Longrightarrow> prefix sep s \<Longrightarrow>
   py_split sep s = [] # py_split sep (drop (length sep) s)"
  by (subst py_split.simps) simp

lemma py_split_step:
  "sep \<noteq> [] \<Longrightarrow> \<not> prefix sep (c # cs) \<Longrightarrow> py_split sep cs = q # qs \<Longrightarrow>
   py_split sep (c # cs) = (c # q) # qs"
  by (subst py_split.simps) simp

text \<open>A string without the separator is its own single piece.\<close>

lemma py_split_no_occurrence:
  "sep \<noteq> [] \<Longrightarrow> \<not> sublist sep s \<Longrightarrow> py_split sep s = [s]"
proof (induction s)
  case Nil
  then show ?case by (simp add: py_split_Nil)
next
  case (Cons c cs)
  then have "\<not> prefix sep (c # cs)" and "py_split sep cs = [cs]"
    by (auto simp: sublist_Cons_right)
  with Cons.prems(1) show ?case by (simp add: py_split_step)
qed

text \<open>No piece of a split contains the separator.\<close>

lemma py_split_pieces_free:
  "sep \<noteq> [] \<Longrightarrow> p \<in> set (py_split sep s) \<Longrightarrow> \<not> sublist sep p"
proof (induction sep s arbitrary: p rule: py_split.induct)
  case (1 sep s)
  note sep = \<open>sep \<noteq> []\<close>
  show ?case
  proof (cases "s = []")
    case True
    with "1.prems" show ?thesis by (simp add: py_split_Nil)
  next
    case ne: False
    show ?thesis
    proof (cases "prefix sep s")
      case True
      with "1.prems" ne have "p = [] \<or> p \<in> set (py_split sep (drop (length sep) s))"
        by (simp add: py_split_match)
      then show ?thesis
        using "1.IH"(1) sep ne True by auto
    next
      case False
      obtain c cs where s: "s = c # cs" using ne by (cases s) auto
      obtain q qs where q: "py_split sep cs = q # qs"
        using py_split_not_Nil [of sep cs] by (cases "py_split sep cs") auto
      have pq: "prefix q cs" using py_split_first_prefix [OF q] .
      from "1.prems" False s q have "p = c # q \<or> p \<in> set qs"
        by (simp add: py_split_step)
      then show ?thesis
      proof
        assume "p \<in> set qs"
        then have "p \<in> set (py_split sep (tl s))" using q s by simp
        then show ?thesis using "1.IH"(2) sep ne False by simp
      next
        assume p: "p = c # q"
        have "\<not> sublist sep q"
          using "1.IH"(2) [of q] sep ne False q s by simp
        moreover have "\<not> prefix sep (c # q)"
        proof
          assume "prefix sep (c # q)"
          moreover have "prefix (c # q) s" using pq s by simp
          ultimately have "prefix sep s" by (rule prefix_order.trans)
          with False show False by simp
        qed
        ultimately show ?thesis using p by (simp add: sublist_Cons_right)
      qed
    qed
  qed
qed

section \<open>Properties of renaming\<close>

lemma bind_Returns_iff:
  "bind m f = Returns y \<longleftrightarrow> (\<exists>x. m = Returns x \<and> f x = Returns y)"
  by (cases m) auto

lemma strip_prefix_free:
  assumes "strip_prefix c = Returns c'"
  shows "\<exists>p. c' = L_str p \<and> \<not> sublist ''. '' p"
proof (cases c)
  case (L_int i)
  with assms show ?thesis by simp
next
  case (L_str s)
  with assms obtain p0 p1 ps where sp: "py_split ''. '' s = p0 # p1 # ps" and c': "c' = L_str p1"
    by (auto split: list.splits)
  have "p1 \<in> set (py_split ''. '' s)" using sp by simp
  then have "\<not> sublist ''. '' p1" by (intro py_split_pieces_free) simp_all
  with c' show ?thesis by blast
qed

lemma strip_prefix_no_separator:
  "\<not> sublist ''. '' p \<Longrightarrow> strip_prefix (L_str p) = Raises IndexError"
  by (simp add: py_split_no_occurrence)

lemma rename_columns_map:
  "(\<And>c. c \<in> set cs \<Longrightarrow> strip_prefix c = Returns (f c)) \<Longrightarrow> rename_columns cs = Returns (map f cs)"
  by (induction cs) simp_all


lemma rename_columns_elems:
  "rename_columns cs = Returns out \<Longrightarrow> c' \<in> set out \<Longrightarrow> \<exists>c \<in> set cs. strip_prefix c = Returns c'"
  by (induction cs arbitrary: out) (auto simp: bind_Returns_iff)

section \<open>Properties of the tables\<close>

lemma map_nth_fun: "map (\<lambda>j. f (xs ! j)) [0..<length xs] = map f xs"
  by (rule nth_equalityI) simp_all

lemma transpose_single_row:
  "length row = length cols \<Longrightarrow>
   transpose_frame \<lparr>index_name = n, index = [i], columns = cols, cells = [row]\<rparr>
     = \<lparr>index_name = None, index = cols, columns = [i], cells = map (\<lambda>v. [v]) row\<rparr>"
  using map_nth_fun [of "\<lambda>v. [v]" row] by (simp add: transpose_frame_def)

lemma fast_unique_subset: "set xs \<subseteq> set seen \<Longrightarrow> fast_unique seen xs = seen"
  by (induction xs) simp_all

lemma fast_unique_distinct: "distinct (seen @ xs) \<Longrightarrow> fast_unique seen xs = seen @ xs"
  by (induction xs arbitrary: seen) simp_all

lemma fast_unique_append: "fast_unique seen (xs @ ys) = fast_unique (fast_unique seen xs) ys"
  by (induction xs arbitrary: seen) simp_all

lemma fast_unique_prefix: "\<exists>ys. fast_unique seen xs = seen @ ys"
proof (induction xs arbitrary: seen)
  case Nil
  then show ?case by simp
next
  case (Cons x xs)
  show ?case
  proof (cases "x \<in> set seen")
    case True
    then show ?thesis using Cons.IH [of seen] by simp
  next
    case False
    then show ?thesis using Cons.IH [of "seen @ [x]"] by auto
  qed
qed

lemma column_dict_keys_subset: "set (map fst (column_dict c rows)) \<subseteq> set (map fst rows)"
  by (induction rows) (auto simp: column_dict_def split: option.splits)

lemma column_dict_keys_all:
  "(\<And>r kvs. (r, kvs) \<in> set rows \<Longrightarrow> c \<in> fst ` set kvs) \<Longrightarrow>
   map fst (column_dict c rows) = map fst rows"
proof (induction rows)
  case Nil
  then show ?case by (simp add: column_dict_def)
next
  case (Cons row rows)
  obtain r kvs where row: "row = (r, kvs)" by (cases row)
  then have "c \<in> fst ` set kvs" using Cons.prems [of r kvs] by simp
  then obtain v where "map_of kvs c = Some v"
    by (metis map_of_eq_None_iff not_Some_eq)
  moreover have "map fst (column_dict c rows) = map fst rows"
    by (rule Cons.IH) (use Cons.prems in auto)
  ultimately show ?case using row
    by (simp add: column_dict_def)
qed

lemma nested_index_all:
  assumes rows: "rows = (r0, (c0, x0) # kvs0) # rest"
    and all: "\<And>r kvs. (r, kvs) \<in> set rows \<Longrightarrow> c0 \<in> fst ` set kvs"
    and dist: "distinct (map fst rows)"
  shows "nested_index rows = map fst rows"
proof -
  let ?keys = "\<lambda>c. map fst (column_dict c rows)"
  have "\<exists>ys. fast_unique [c0] (map fst kvs0 @ concat (map (\<lambda>(r, kvs). map fst kvs) rest)) = [c0] @ ys"
    by (rule fast_unique_prefix)
  then obtain ys where cols: "nested_columns rows = c0 # ys"
    unfolding nested_columns_def rows by auto
  have first: "?keys c0 = map fst rows"
    using all by (rule column_dict_keys_all)
  have rest: "set (concat (map ?keys ys)) \<subseteq> set (map fst rows)"
  proof
    fix x assume "x \<in> set (concat (map ?keys ys))"
    then obtain c where "x \<in> set (?keys c)" by auto
    then show "x \<in> set (map fst rows)"
      using column_dict_keys_subset [of c rows] by blast
  qed
  have "nested_index rows = fast_unique [] (?keys c0 @ concat (map ?keys ys))"
    unfolding nested_index_def cols by simp
  also have "\<dots> = fast_unique (fast_unique [] (map fst rows)) (concat (map ?keys ys))"
    unfolding first by (rule fast_unique_append)
  also have "fast_unique [] (map fst rows) = map fst rows"
    using fast_unique_distinct [of "[]" "map fst rows"] dist by simp
  also have "fast_unique (map fst rows) (concat (map ?keys ys)) = map fst rows"
    using rest by (rule fast_unique_subset)
  finally show ?thesis .
qed

lemma nested_items_carrying:
  "list_all (\<lambda>(r, v). case field_names v of None \<Rightarrow> False | Some fs \<Rightarrow> c0 \<in> set fs) ts \<Longrightarrow>
   \<exists>rows. nested_items ts = Returns rows \<and> map fst rows = map fst ts
         \<and> (\<forall>r kvs. (r, kvs) \<in> set rows \<longrightarrow> c0 \<in> fst ` set kvs)"
proof (induction ts)
  case Nil
  then show ?case by simp
next
  case (Cons row ts)
  obtain r v where row: "row = (r, v)" by (cases row)
  with Cons.prems obtain kvs where v: "v = JObj kvs" and c0: "c0 \<in> fst ` set kvs"
    by (cases v) auto
  from Cons obtain rows where rows: "nested_items ts = Returns rows" "map fst rows = map fst ts"
      "\<forall>r kvs. (r, kvs) \<in> set rows \<longrightarrow> c0 \<in> fst ` set kvs"
    by auto
  show ?case
    using row v c0 rows by (intro exI [of _ "(r, kvs) # rows"]) auto
qed

lemma nested_frame_index: "index (nested_frame rows) = map L_str (nested_index rows)"
  by (simp add: nested_frame_def)

lemma nested_frame_cells: "length (cells (nested_frame rows)) = length (nested_index rows)"
  by (simp add: nested_frame_def)

lemma nested_frame_columns: "c \<in> set (columns (nested_frame rows)) \<Longrightarrow> \<exists>s. c = L_str s"
  by (auto simp: nested_frame_def)

lemma from_dict_index_uniform:
  assumes "uniform_time_series ts"
  shows "\<exists>df. from_dict_index (JObj ts) = Returns df
            \<and> index df = map (L_str \<circ> fst) ts
            \<and> length (cells df) = length ts
            \<and> (\<forall>c \<in> set (columns df). \<exists>s. c = L_str s)"
proof (cases ts)
  case Nil
  then show ?thesis by (simp add: empty_frame_def)
next
  case (Cons row rest)
  obtain r0 v0 where row: "row = (r0, v0)" by (cases row)
  from assms Cons row have fn: "field_names v0 \<noteq> None"
    by (auto simp: uniform_time_series_def split: option.splits)
  then obtain kvs0 where v0: "v0 = JObj kvs0" by (cases v0) simp_all
  from assms Cons row v0 have ne: "kvs0 \<noteq> []"
    and same: "list_all (\<lambda>(r, v). case field_names v of None \<Rightarrow> False
                                    | Some fs \<Rightarrow> set fs = set (map fst kvs0)) rest"
    by (simp_all add: uniform_time_series_def)
  from ne obtain c0 x0 kvs0' where kvs0: "kvs0 = (c0, x0) # kvs0'"
    by (cases kvs0) auto
  have "list_all (\<lambda>(r, v). case field_names v of None \<Rightarrow> False | Some fs \<Rightarrow> c0 \<in> set fs) rest"
    by (rule list.pred_mono_strong [OF same]) (auto simp: kvs0 split: option.splits)
  then have "list_all (\<lambda>(r, v). case field_names v of None \<Rightarrow> False | Some fs \<Rightarrow> c0 \<in> set fs) ts"
    using Cons row v0 kvs0 by simp
  from nested_items_carrying [OF this] obtain rows where
    rows: "nested_items ts = Returns rows" and keys: "map fst rows = map fst ts"
    and all: "\<And>r kvs. (r, kvs) \<in> set rows \<Longrightarrow> c0 \<in> fst ` set kvs"
    by blast
  from rows Cons row v0 kvs0 obtain rest' where shape: "rows = (r0, (c0, x0) # kvs0') # rest'"
    by (auto simp: bind_Returns_iff)
  have dist: "distinct (map fst rows)"
    using assms keys by (simp add: uniform_time_series_def)
  have idx: "nested_index rows = map fst ts"
    using nested_index_all [OF shape all dist] keys by simp
  have fd: "from_dict_index (JObj ts) = Returns (nested_frame rows)"
    using rows Cons row v0 by simp
  have "index (nested_frame rows) = map (L_str \<circ> fst) ts"
    by (simp add: nested_frame_index idx)
  moreover have "length (cells (nested_frame rows)) = length ts"
    by (simp add: nested_frame_cells idx)
  moreover have "\<forall>c \<in> set (columns (nested_frame rows)). \<exists>s. c = L_str s"
    using nested_frame_columns by blast
  ultimately show ?thesis using fd by blast
qed






lemma time_series_daily_frame_rows:
  assumes "time_series_daily_frame ts = Returns df"
  shows "\<exists>df0. from_dict_index ts = Returns df0
              \<and> index df = index df0 \<and> length (cells df) = length (cells df0)"
  using assms
  by (auto simp: time_series_daily_frame_def set_columns_def apply_to_numeric_def
        bind_Returns_iff split: if_splits)

lemma technical_indicator_frame_rows:
  assumes "technical_indicator_frame e ts = Returns df"
  shows "\<exists>df0. from_dict_index ts = Returns df0
              \<and> index df = index df0 \<and> length (cells df) = length (cells df0)"
  using assms
  by (auto simp: technical_indicator_frame_def set_columns_def apply_to_numeric_def
        bind_Returns_iff split: if_splits)

lemma getitem_column_rows:
  "getitem_column c df = Returns s \<Longrightarrow> index s = index df \<and> length (cells s) = length (cells df)"
  by (auto simp: getitem_column_def split: if_splits)

section \<open>Properties of numeric coercion\<close>
























section \<open>The claims\<close>

text \<open>
  C1, as the script has it. The claim asks for a \<open>ColumnCollision\<close> error when two
  distinct column names are renamed to the same name. Line 102 renames each name on its
  own and compares nothing: whenever every column name of the payload's table can be
  renamed, the table is built with each column under its renamed name, also when two
  of these names are equal. The script has no collision error.
\<close>

theorem rename_has_no_collision_check:
  assumes "from_dict_index time_series = Returns df"
    and "\<forall>c \<in> set (columns df). strip_prefix c = Returns (f c)"
  shows "time_series_daily_frame time_series =
           Returns (apply_to_numeric (df\<lparr>index_name := Some ''Date'', columns := map f (columns df)\<rparr>))"
proof -
  have "rename_columns (columns df) = Returns (map f (columns df))"
    using assms(2) by (intro rename_columns_map) simp
  then show ?thesis
    using assms(1) by (simp add: time_series_daily_frame_def set_columns_def)
qed

text \<open>
  The witness of C1's theorem: the columns \<^verbatim>\<open>"a. x"\<close> and \<^verbatim>\<open>"b. x"\<close> both become
  \<^verbatim>\<open>"x"\<close>, and the table has two columns of that name.
\<close>

theorem rename_has_no_collision_check_witness:
  "from_dict_index (JObj [(''2024-01-01'', JObj [(''a. x'', JStr ''1''), (''b. x'', JStr ''2'')])])
     = Returns \<lparr>index_name = None, index = [L_str ''2024-01-01''],
                columns = [L_str ''a. x'', L_str ''b. x''],
                cells = [[Obj (JStr ''1''), Obj (JStr ''2'')]]\<rparr>
   \<and> strip_prefix (L_str ''a. x'') = Returns (L_str ''x'')
   \<and> strip_prefix (L_str ''b. x'') = Returns (L_str ''x'')
   \<and> time_series_daily_frame
        (JObj [(''2024-01-01'', JObj [(''a. x'', JStr ''1''), (''b. x'', JStr ''2'')])])
     = Returns \<lparr>index_name = Some ''Date'', index = [L_str ''2024-01-01''],
                columns = [L_str ''x'', L_str ''x''],
                cells = [[Number 1, Number 2]]\<rparr>"
proof -
  let ?ts = "JObj [(''2024-01-01'', JObj [(''a. x'', JStr ''1''), (''b. x'', JStr ''2'')])]"
  let ?df = "\<lparr>index_name = None, index = [L_str ''2024-01-01''],
              columns = [L_str ''a. x'', L_str ''b. x''],
              cells = [[Obj (JStr ''1''), Obj (JStr ''2'')]]\<rparr>"
  have fd: "from_dict_index ?ts = Returns ?df" by code_simp
  have a: "strip_prefix (L_str ''a. x'') = Returns (L_str ''x'')" by code_simp
  have b: "strip_prefix (L_str ''b. x'') = Returns (L_str ''x'')" by code_simp
  have "\<forall>c \<in> set (columns ?df). strip_prefix c = Returns ((\<lambda>c. L_str ''x'') c)"
    using a b by simp
  from rename_has_no_collision_check [OF fd this]
  have "time_series_daily_frame ?ts =
          Returns (apply_to_numeric (?df\<lparr>index_name := Some ''Date'', columns := [L_str ''x'', L_str ''x'']\<rparr>))"
    by simp
  moreover have "apply_to_numeric (?df\<lparr>index_name := Some ''Date'', columns := [L_str ''x'', L_str ''x'']\<rparr>)
      = \<lparr>index_name = Some ''Date'', index = [L_str ''2024-01-01''],
         columns = [L_str ''x'', L_str ''x''], cells = [[Number 1, Number 2]]\<rparr>"
    by code_simp
  ultimately show ?thesis using fd a b by simp
qed

text \<open>
  C1 as stated fails: on a payload whose two fields \<^verbatim>\<open>"a. x"\<close> and \<^verbatim>\<open>"b. x"\<close> are
  renamed to the same name, lines 98 to 103 return a table and no error.
\<close>

theorem column_collision_counterexample:
  "strip_prefix (L_str ''a. x'') = strip_prefix (L_str ''b. x'')
   \<and> time_series_daily_frame
        (JObj [(''2024-01-01'', JObj [(''a. x'', JStr ''1''), (''b. x'', JStr ''2'')])])
     = Returns \<lparr>index_name = Some ''Date'', index = [L_str ''2024-01-01''],
                columns = [L_str ''x'', L_str ''x''],
                cells = [[Number 1, Number 2]]\<rparr>"
  by code_simp

text \<open>
  C2, as the script has it. The claim says that renaming an already renamed column set
  is a no-op and never fails. The rule of line 102 takes the piece after the first
  \<^verbatim>\<open>'. '\<close>: every name it returns is free of \<^verbatim>\<open>'. '\<close>, so renaming a non-empty
  renamed column set raises \<^verbatim>\<open>IndexError\<close>. Renaming is neither idempotent nor total.
\<close>

theorem renaming_twice_raises:
  assumes "rename_columns cs = Returns out"
  shows "(\<forall>c'. c' \<in> set out \<longrightarrow> (\<exists>p. c' = L_str p \<and> \<not> sublist ''. '' p))
         \<and> (out \<noteq> [] \<longrightarrow> rename_columns out = Raises IndexError)"
proof (intro conjI allI impI)
  fix c' assume "c' \<in> set out"
  then obtain c where "strip_prefix c = Returns c'"
    using rename_columns_elems [OF assms] by blast
  then show "\<exists>p. c' = L_str p \<and> \<not> sublist ''. '' p" by (rule strip_prefix_free)
next
  assume "out \<noteq> []"
  then obtain c' rest where out: "out = c' # rest" by (cases out) auto
  then obtain c where "strip_prefix c = Returns c'"
    using rename_columns_elems [OF assms, of c'] by auto
  then obtain p where "c' = L_str p" and "\<not> sublist ''. '' p"
    using strip_prefix_free by blast
  then have "strip_prefix c' = Raises IndexError"
    using strip_prefix_no_separator [of p] by blast
  then show "rename_columns out = Raises IndexError" using out by simp
qed

text \<open>
  The witness of C2's theorem: \<^verbatim>\<open>"4. close"\<close> becomes \<^verbatim>\<open>"close"\<close>, which cannot be
  renamed again.
\<close>

theorem renaming_twice_raises_witness:
  "rename_columns [L_str ''4. close''] = Returns [L_str ''close'']
   \<and> \<not> sublist ''. '' ''close''
   \<and> rename_columns [L_str ''close''] = Raises IndexError"
proof -
  have r: "rename_columns [L_str ''4. close''] = Returns [L_str ''close'']" by code_simp
  from renaming_twice_raises [OF r] have "rename_columns [L_str ''close''] = Raises IndexError"
    and "\<not> sublist ''. '' ''close''" by simp_all
  with r show ?thesis by simp
qed

text \<open>
  C2 as stated fails on the output of a successful normalization: the table built from
  \<^verbatim>\<open>{"2024-01-01": {"4. close": "100.5"}}\<close> has the column \<^verbatim>\<open>"close"\<close>, and renaming
  that column set raises \<^verbatim>\<open>IndexError\<close> instead of returning it.
\<close>

theorem rename_idempotent_counterexample:
  "time_series_daily_frame (JObj [(''2024-01-01'', JObj [(''4. close'', JStr ''100.5'')])])
     = Returns \<lparr>index_name = Some ''Date'', index = [L_str ''2024-01-01''],
                columns = [L_str ''close''], cells = [[Number (201 / 2)]]\<rparr>
   \<and> rename_columns [L_str ''close''] = Raises IndexError
   \<and> rename_columns [L_str ''close''] \<noteq> Returns [L_str ''close'']"
  by code_simp

text \<open>
  C7. On the time series \<^verbatim>\<open>{"2024-01-01": {"4. close": "100.5"}}\<close> lines 98 to 103
  build a table of exactly one row, keyed \<^verbatim>\<open>"2024-01-01"\<close>, and exactly one column,
  named \<^verbatim>\<open>"close"\<close>, whose cell is the number 100.5; and the branch, given a response
  that holds this time series, shows that table and charts its \<^verbatim>\<open>close\<close> column.
\<close>

theorem time_series_round_trip:
  "time_series_daily_frame (JObj [(''2024-01-01'', JObj [(''4. close'', JStr ''100.5'')])])
     = Returns \<lparr>index_name = Some ''Date'', index = [L_str ''2024-01-01''],
                columns = [L_str ''close''], cells = [[Number 100.5]]\<rparr>
   \<and> time_series_daily_branch
        (JObj [(''Time Series (Daily)'',
                JObj [(''2024-01-01'', JObj [(''4. close'', JStr ''100.5'')])])])
     = ([St_dataframe \<lparr>index_name = Some ''Date'', index = [L_str ''2024-01-01''],
                        columns = [L_str ''close''], cells = [[Number 100.5]]\<rparr>,
         St_line_chart \<lparr>index_name = Some ''Date'', index = [L_str ''2024-01-01''],
                         columns = [L_str ''close''], cells = [[Number 100.5]]\<rparr>],
        Returns ())"
  by code_simp

text \<open>
  C3, as the script has it. The claim expects the GLOBAL_QUOTE table to have a column
  \<^verbatim>\<open>"price"\<close> holding the number 150.0. Lines 125 to 127 turn the quote into a table
  of one row per field, keyed by the field name as the API sent it, with the single
  column \<^verbatim>\<open>"Value"\<close> holding the raw value: no prefix is stripped and nothing is
  coerced. So for every response whose \<^verbatim>\<open>"Global Quote"\<close> is a non-empty mapping:
\<close>

theorem global_quote_table:
  assumes "map_of kvs ''Global Quote'' = Some (JObj q)" and "q \<noteq> []"
  shows "global_quote_branch (JObj kvs) =
           ([St_table \<lparr>index_name = None, index = map (L_str \<circ> fst) q,
                        columns = [L_str ''Value''], cells = map (\<lambda>kv. [Obj (snd kv)]) q\<rparr>],
            Returns ())"
proof -
  from assms(1) have "kvs \<noteq> []" by auto
  moreover have "global_quote_frame (JObj q) =
      Returns \<lparr>index_name = None, index = map (L_str \<circ> fst) q,
                columns = [L_str ''Value''], cells = map (\<lambda>kv. [Obj (snd kv)]) q\<rparr>"
    by (simp add: global_quote_frame_def transpose_single_row set_columns_def comp_def)
  ultimately show ?thesis
    using assms by (simp add: global_quote_branch_def)
qed

text \<open>
  The witness of C3's theorem is the claim's own input: one row keyed
  \<^verbatim>\<open>"05. price"\<close>, one column \<^verbatim>\<open>"Value"\<close>, the string \<^verbatim>\<open>"150.00"\<close>.
\<close>

theorem global_quote_table_witness:
  "global_quote_branch (JObj [(''Global Quote'', JObj [(''05. price'', JStr ''150.00'')])]) =
     ([St_table \<lparr>index_name = None, index = [L_str ''05. price''],
                  columns = [L_str ''Value''], cells = [[Obj (JStr ''150.00'')]]\<rparr>],
      Returns ())"
  using global_quote_table [of "[(''Global Quote'', JObj [(''05. price'', JStr ''150.00'')])]"
                               "[(''05. price'', JStr ''150.00'')]"]
  by simp

text \<open>
  C3 as stated fails on its input: the table shown has no column \<^verbatim>\<open>"price"\<close> and no
  cell holding the number 150.
\<close>

theorem global_quote_counterexample:
  "\<exists>t. global_quote_branch (JObj [(''Global Quote'', JObj [(''05. price'', JStr ''150.00'')])])
         = ([St_table t], Returns ())
       \<and> columns t = [L_str ''Value''] \<and> L_str ''price'' \<notin> set (columns t)
       \<and> index t = [L_str ''05. price'']
       \<and> cells t = [[Obj (JStr ''150.00'')]] \<and> Number 150 \<notin> set (concat (cells t))"
  by (rule exI [of _ "\<lparr>index_name = None, index = [L_str ''05. price''],
                  columns = [L_str ''Value''], cells = [[Obj (JStr ''150.00'')]]\<rparr>"]) code_simp

text \<open>
  C4, as the script has it. The claim says that every response without the container
  is reported together with the raw payload. The branches first test the response's truth
  value (lines 94 and 161): a non-empty JSON object without the container key makes the
  TIME_SERIES_DAILY branch show its warning and the payload, and the SMA branch its
  error and the payload, with no exception and no table; a response that is empty or
  otherwise false is passed over and nothing at all is shown.
\<close>

theorem missing_container_is_reported:
  "(kvs \<noteq> [] \<and> map_of kvs ''Time Series (Daily)'' = None \<longrightarrow>
      time_series_daily_branch (JObj kvs) =
        ([St_warning ''Data structure was weird. Maybe the symbol is wrong?'', St_json (JObj kvs)],
         Returns ()))
   \<and> (kvs \<noteq> [] \<and> map_of kvs ''Technical Analysis: SMA'' = None \<longrightarrow>
      sma_branch time_period (JObj kvs) =
        ([St_error ''Could not calculate SMA. Check parameters.'', St_json (JObj kvs)],
         Returns ()))
   \<and> (\<not> truthy raw_data \<longrightarrow>
      time_series_daily_branch raw_data = ([], Returns ())
      \<and> sma_branch time_period raw_data = ([], Returns ()))"
proof (intro conjI impI)
  assume a: "kvs \<noteq> [] \<and> map_of kvs ''Time Series (Daily)'' = None"
  then have "''Time Series (Daily)'' \<notin> set (map fst kvs)"
    by (simp add: map_of_eq_None_iff)
  with a show "time_series_daily_branch (JObj kvs) =
        ([St_warning ''Data structure was weird. Maybe the symbol is wrong?'', St_json (JObj kvs)],
         Returns ())"
    by (simp add: time_series_daily_branch_def)
next
  assume "kvs \<noteq> [] \<and> map_of kvs ''Technical Analysis: SMA'' = None"
  then show "sma_branch time_period (JObj kvs) =
        ([St_error ''Could not calculate SMA. Check parameters.'', St_json (JObj kvs)],
         Returns ())"
    by (simp add: sma_branch_def)
next
  assume "\<not> truthy raw_data"
  then show "time_series_daily_branch raw_data = ([], Returns ())"
    by (simp add: time_series_daily_branch_def)
next
  assume "\<not> truthy raw_data"
  then show "sma_branch time_period raw_data = ([], Returns ())"
    by (simp add: sma_branch_def)
qed

text \<open>
  The witness of C4's theorem: the API's error payload
  \<^verbatim>\<open>{"Error Message": "invalid symbol"}\<close>, and \<^verbatim>\<open>None\<close> for a response that is false.
\<close>

theorem missing_container_is_reported_witness:
  "time_series_daily_branch (JObj [(''Error Message'', JStr ''invalid symbol'')]) =
     ([St_warning ''Data structure was weird. Maybe the symbol is wrong?'',
       St_json (JObj [(''Error Message'', JStr ''invalid symbol'')])], Returns ())
   \<and> sma_branch 20 (JObj [(''Error Message'', JStr ''invalid symbol'')]) =
     ([St_error ''Could not calculate SMA. Check parameters.'',
       St_json (JObj [(''Error Message'', JStr ''invalid symbol'')])], Returns ())
   \<and> time_series_daily_branch JNull = ([], Returns ())
   \<and> sma_branch 20 JNull = ([], Returns ())"
  using missing_container_is_reported [of "[(''Error Message'', JStr ''invalid symbol'')]" 20 JNull]
  by simp

text \<open>
  C4 as stated fails on the empty response \<^verbatim>\<open>{}\<close>: the container is not in it, and
  neither branch shows an error or the payload.
\<close>

theorem missing_container_counterexample:
  "py_contains ''Time Series (Daily)'' (JObj []) = Returns False
   \<and> time_series_daily_branch (JObj []) = ([], Returns ())
   \<and> py_get (JObj []) ''Technical Analysis: SMA'' JNull = Returns JNull
   \<and> sma_branch 20 (JObj []) = ([], Returns ())"
  by (simp add: time_series_daily_branch_def sma_branch_def)



text \<open>
  What lines 6 to 20 do in the cases their two \<^verbatim>\<open>except\<close> clauses name: the key comes
  from the secret store when the store returns one, whatever the local file holds; it
  comes from the local file when the store raises \<^verbatim>\<open>StreamlitAPIException\<close> or
  \<^verbatim>\<open>KeyError\<close> and the import returns one; and when the import then raises
  \<^verbatim>\<open>ImportError\<close> the error message is shown and \<^verbatim>\<open>st.stop()\<close> ends the run before
  any endpoint logic.
\<close>

lemma api_key_handled_cases:
  "(secrets_lookup = Inr k \<longrightarrow>
      script secrets_lookup local_import endpoint_logic =
        (St_caption '' Running with Streamlit Secrets (Cloud)'' # fst (endpoint_logic k),
         snd (endpoint_logic k)))
   \<and> ((secrets_lookup = Inl StreamlitAPIException \<or> secrets_lookup = Inl KeyError)
       \<and> local_import = Inr k \<longrightarrow>
      script secrets_lookup local_import endpoint_logic =
        (St_caption '' Running with local API_KEY.py'' # fst (endpoint_logic k),
         snd (endpoint_logic k)))
   \<and> ((secrets_lookup = Inl StreamlitAPIException \<or> secrets_lookup = Inl KeyError)
       \<and> local_import = Inl ImportError \<longrightarrow>
      script secrets_lookup local_import endpoint_logic =
        ([St_error api_key_missing], Raises StopException))"
  by (auto simp: script_def resolve_api_key_def)

text \<open>
  C8. The key is to come from the secret store first, then from the local file, and a
  run in which neither yields a key is to show the error and stop. The script falls
  short of this whenever a source fails with an exception its \<^verbatim>\<open>except\<close> clauses
  do not name. When the lookup in the secret store raises anything but
  \<^verbatim>\<open>StreamlitAPIException\<close> or \<^verbatim>\<open>KeyError\<close> (a \<^verbatim>\<open>FileNotFoundError\<close> for a missing
  secrets file, a \<^verbatim>\<open>TypeError\<close> when the entry \<^verbatim>\<open>alphavantage\<close> is a plain string), the
  local file is not tried although it holds a key, and the run ends with that exception.
  When the store has no key and the import raises anything but \<^verbatim>\<open>ImportError\<close> (a
  \<^verbatim>\<open>SyntaxError\<close> in \<^verbatim>\<open>API_KEY.py\<close>), neither source yields a key and the run ends with
  that exception: \<^verbatim>\<open>st.error\<close> is not called.
\<close>

theorem api_key_fallback_is_missed:
  "script (Inl (OtherError ''FileNotFoundError'')) (Inr ''local'') endpoint_logic =
     ([], Raises (OtherError ''FileNotFoundError''))
   \<and> script (Inl TypeError) (Inr ''local'') endpoint_logic = ([], Raises TypeError)
   \<and> script (Inl KeyError) (Inl (OtherError ''SyntaxError'')) endpoint_logic =
     ([], Raises (OtherError ''SyntaxError''))"
  by (simp add: script_def resolve_api_key_def)

text \<open>
  C9. For GLOBAL_QUOTE, SMA and RSI a response whose container key maps to an empty
  object is handled exactly as one without the key: the branch shows its error message
  and the raw payload, and no table.
\<close>

theorem empty_container_is_error_branch:
  "(kvs \<noteq> [] \<and> (map_of kvs ''Global Quote'' = None \<or> map_of kvs ''Global Quote'' = Some (JObj [])) \<longrightarrow>
      global_quote_branch (JObj kvs) =
        ([St_error ''Could not fetch quote. Check symbol.'', St_json (JObj kvs)], Returns ()))
   \<and> (kvs \<noteq> [] \<and> (map_of kvs ''Technical Analysis: SMA'' = None
                    \<or> map_of kvs ''Technical Analysis: SMA'' = Some (JObj [])) \<longrightarrow>
      sma_branch time_period (JObj kvs) =
        ([St_error ''Could not calculate SMA. Check parameters.'', St_json (JObj kvs)], Returns ()))
   \<and> (kvs \<noteq> [] \<and> (map_of kvs ''Technical Analysis: RSI'' = None
                    \<or> map_of kvs ''Technical Analysis: RSI'' = Some (JObj [])) \<longrightarrow>
      rsi_branch (JObj kvs) =
        ([St_error ''Could not calculate RSI. Check parameters.'', St_json (JObj kvs)], Returns ()))"
  by (auto simp: global_quote_branch_def sma_branch_def rsi_branch_def)

text \<open>
  The witness of C9's theorem: the container key is there and maps to \<^verbatim>\<open>{}\<close>.
\<close>

theorem empty_container_is_error_branch_witness:
  "global_quote_branch (JObj [(''Global Quote'', JObj [])]) =
     ([St_error ''Could not fetch quote. Check symbol.'', St_json (JObj [(''Global Quote'', JObj [])])],
      Returns ())
   \<and> sma_branch 20 (JObj [(''Technical Analysis: SMA'', JObj [])]) =
     ([St_error ''Could not calculate SMA. Check parameters.'',
       St_json (JObj [(''Technical Analysis: SMA'', JObj [])])], Returns ())
   \<and> rsi_branch (JObj [(''Technical Analysis: RSI'', JObj [])]) =
     ([St_error ''Could not calculate RSI. Check parameters.'',
       St_json (JObj [(''Technical Analysis: RSI'', JObj [])])], Returns ())"
  using empty_container_is_error_branch [of "[(''Global Quote'', JObj [])]"]
    empty_container_is_error_branch [of "[(''Technical Analysis: SMA'', JObj [])]" 20]
    empty_container_is_error_branch [of "[(''Technical Analysis: RSI'', JObj [])]"]
  by simp




text \<open>
  C10. Once the table \<open>df\<close> of a TIME_SERIES_DAILY, SMA or RSI response is built, the
  branch hands \<^verbatim>\<open>st.dataframe\<close> the table \<^verbatim>\<open>df.head(20)\<close>, which has the first 20
  rows of \<open>df\<close> at most and all its columns, and hands \<^verbatim>\<open>st.line_chart\<close> all rows:
  the whole table for SMA and RSI, the \<^verbatim>\<open>close\<close> column over every row for
  TIME_SERIES_DAILY. For a uniform time series the rows of \<open>df\<close> are the payload's, in
  source order, so the table shown has the payload's first 20 keys.
\<close>

theorem table_shows_first_twenty_rows:
  "(map_of kvs ''Time Series (Daily)'' = Some ts \<and> time_series_daily_frame ts = Returns df
      \<and> L_str ''close'' \<in> set (columns df) \<longrightarrow>
      (\<exists>chart. time_series_daily_branch (JObj kvs)
                 = ([St_dataframe (head 20 df), St_line_chart chart], Returns ())
              \<and> index chart = index df \<and> length (cells chart) = length (cells df)))
   \<and> (map_of kvs ''Technical Analysis: SMA'' = Some ts \<and> truthy ts
      \<and> technical_indicator_frame ''SMA'' ts = Returns df \<longrightarrow>
      sma_branch time_period (JObj kvs)
        = ([St_dataframe (head 20 df), St_line_chart df,
            St_caption (''The chart shows the '' @ str_nat time_period @
                        ''-day Simple Moving Average.'')], Returns ()))
   \<and> (map_of kvs ''Technical Analysis: RSI'' = Some ts \<and> truthy ts
      \<and> technical_indicator_frame ''RSI'' ts = Returns df \<longrightarrow>
      rsi_branch (JObj kvs)
        = ([St_dataframe (head 20 df), St_line_chart df, St_caption rsi_caption], Returns ()))
   \<and> index (head 20 df) = take 20 (index df)
   \<and> cells (head 20 df) = take 20 (cells df)
   \<and> columns (head 20 df) = columns df
   \<and> length (index (head 20 df)) \<le> 20
   \<and> (uniform_time_series rows
      \<and> (time_series_daily_frame (JObj rows) = Returns df
         \<or> technical_indicator_frame the_endpoint (JObj rows) = Returns df) \<longrightarrow>
      index df = map (L_str \<circ> fst) rows
      \<and> index (head 20 df) = map (L_str \<circ> fst) (take 20 rows))"
proof (intro conjI impI)
  assume a: "map_of kvs ''Time Series (Daily)'' = Some ts \<and> time_series_daily_frame ts = Returns df
      \<and> L_str ''close'' \<in> set (columns df)"
  then have key: "''Time Series (Daily)'' \<in> set (map fst kvs)"
    by (metis map_of_eq_None_iff option.distinct(1) set_map)
  from a have ne: "kvs \<noteq> []" by auto
  from a obtain chart where chart: "getitem_column (L_str ''close'') df = Returns chart"
    by (auto simp: getitem_column_def)
  have "time_series_daily_branch (JObj kvs)
          = ([St_dataframe (head 20 df), St_line_chart chart], Returns ())"
    using a key ne chart by (simp add: time_series_daily_branch_def)
  then show "\<exists>chart. time_series_daily_branch (JObj kvs)
                 = ([St_dataframe (head 20 df), St_line_chart chart], Returns ())
              \<and> index chart = index df \<and> length (cells chart) = length (cells df)"
    using getitem_column_rows [OF chart] by blast
next
  assume a: "map_of kvs ''Technical Analysis: SMA'' = Some ts \<and> truthy ts
      \<and> technical_indicator_frame ''SMA'' ts = Returns df"
  then have "kvs \<noteq> []" by auto
  with a show "sma_branch time_period (JObj kvs)
        = ([St_dataframe (head 20 df), St_line_chart df,
            St_caption (''The chart shows the '' @ str_nat time_period @
                        ''-day Simple Moving Average.'')], Returns ())"
    by (simp add: sma_branch_def)
next
  assume a: "map_of kvs ''Technical Analysis: RSI'' = Some ts \<and> truthy ts
      \<and> technical_indicator_frame ''RSI'' ts = Returns df"
  then have "kvs \<noteq> []" by auto
  with a show "rsi_branch (JObj kvs)
        = ([St_dataframe (head 20 df), St_line_chart df, St_caption rsi_caption], Returns ())"
    by (simp add: rsi_branch_def)
next
  show "index (head 20 df) = take 20 (index df)" by (simp add: head_def)
next
  show "cells (head 20 df) = take 20 (cells df)" by (simp add: head_def)
next
  show "columns (head 20 df) = columns df" by (simp add: head_def)
next
  show "length (index (head 20 df)) \<le> 20" by (simp add: head_def)
next
  assume a: "uniform_time_series rows
      \<and> (time_series_daily_frame (JObj rows) = Returns df
         \<or> technical_indicator_frame the_endpoint (JObj rows) = Returns df)"
  from a from_dict_index_uniform [of rows] obtain df0 where
    fd: "from_dict_index (JObj rows) = Returns df0" and idx: "index df0 = map (L_str \<circ> fst) rows"
    by blast
  from a have "\<exists>df1. from_dict_index (JObj rows) = Returns df1 \<and> index df = index df1"
    using time_series_daily_frame_rows [of "JObj rows" df]
      technical_indicator_frame_rows [of the_endpoint "JObj rows" df] by blast
  with fd idx show i: "index df = map (L_str \<circ> fst) rows" by auto
  then show "index (head 20 df) = map (L_str \<circ> fst) (take 20 rows)"
    by (simp add: head_def take_map)
qed

text \<open>
  The witness of C10's theorem: an SMA response of 22 rows and an RSI response of 21
  rows (the table shows 20 of them, the chart all), and a TIME_SERIES_DAILY response of
  three rows.
\<close>

theorem table_shows_first_twenty_rows_witness:
  "sma_branch 20 (JObj [(''Technical Analysis: SMA'', JObj
     [(''2024-01-22'', JObj [(''SMA'', JStr ''122'')]),
      (''2024-01-21'', JObj [(''SMA'', JStr ''121'')]),
      (''2024-01-20'', JObj [(''SMA'', JStr ''120'')]),
      (''2024-01-19'', JObj [(''SMA'', JStr ''119'')]),
      (''2024-01-18'', JObj [(''SMA'', JStr ''118'')]),
      (''2024-01-17'', JObj [(''SMA'', JStr ''117'')]),
      (''2024-01-16'', JObj [(''SMA'', JStr ''116'')]),
      (''2024-01-15'', JObj [(''SMA'', JStr ''115'')]),
      (''2024-01-14'', JObj [(''SMA'', JStr ''114'')]),
      (''2024-01-13'', JObj [(''SMA'', JStr ''113'')]),
      (''2024-01-12'', JObj [(''SMA'', JStr ''112'')]),
      (''2024-01-11'', JObj [(''SMA'', JStr ''111'')]),
      (''2024-01-10'', JObj [(''SMA'', JStr ''110'')]),
      (''2024-01-09'', JObj [(''SMA'', JStr ''109'')]),
      (''2024-01-08'', JObj [(''SMA'', JStr ''108'')]),
      (''2024-01-07'', JObj [(''SMA'', JStr ''107'')]),
      (''2024-01-06'', JObj [(''SMA'', JStr ''106'')]),
      (''2024-01-05'', JObj [(''SMA'', JStr ''105'')]),
      (''2024-01-04'', JObj [(''SMA'', JStr ''104'')]),
      (''2024-01-03'', JObj [(''SMA'', JStr ''103'')]),
      (''2024-01-02'', JObj [(''SMA'', JStr ''102'')]),
      (''2024-01-01'', JObj [(''SMA'', JStr ''101'')])])])
   = ([St_dataframe
        \<lparr>index_name = Some ''Date'', index = [L_str ''2024-01-22'', L_str ''2024-01-21'', L_str ''2024-01-20'', L_str ''2024-01-19'', L_str ''2024-01-18'', L_str ''2024-01-17'', L_str ''2024-01-16'', L_str ''2024-01-15'', L_str ''2024-01-14'', L_str ''2024-01-13'', L_str ''2024-01-12'', L_str ''2024-01-11'', L_str ''2024-01-10'', L_str ''2024-01-09'', L_str ''2024-01-08'', L_str ''2024-01-07'', L_str ''2024-01-06'', L_str ''2024-01-05'', L_str ''2024-01-04'', L_str ''2024-01-03''],
      columns = [L_str ''SMA''], cells = [[Number 122], [Number 121], [Number 120], [Number 119], [Number 118], [Number 117], [Number 116], [Number 115], [Number 114], [Number 113], [Number 112], [Number 111], [Number 110], [Number 109], [Number 108], [Number 107], [Number 106], [Number 105], [Number 104], [Number 103]]\<rparr>,
       St_line_chart
        \<lparr>index_name = Some ''Date'', index = [L_str ''2024-01-22'', L_str ''2024-01-21'', L_str ''2024-01-20'', L_str ''2024-01-19'', L_str ''2024-01-18'', L_str ''2024-01-17'', L_str ''2024-01-16'', L_str ''2024-01-15'', L_str ''2024-01-14'', L_str ''2024-01-13'', L_str ''2024-01-12'', L_str ''2024-01-11'', L_str ''2024-01-10'', L_str ''2024-01-09'', L_str ''2024-01-08'', L_str ''2024-01-07'', L_str ''2024-01-06'', L_str ''2024-01-05'', L_str ''2024-01-04'', L_str ''2024-01-03'', L_str ''2024-01-02'', L_str ''2024-01-01''],
      columns = [L_str ''SMA''], cells = [[Number 122], [Number 121], [Number 120], [Number 119], [Number 118], [Number 117], [Number 116], [Number 115], [Number 114], [Number 113], [Number 112], [Number 111], [Number 110], [Number 109], [Number 108], [Number 107], [Number 106], [Number 105], [Number 104], [Number 103], [Number 102], [Number 101]]\<rparr>,
       St_caption ''The chart shows the 20-day Simple Moving Average.''], Returns ())
   \<and> rsi_branch (JObj [(''Technical Analysis: RSI'', JObj
     [(''2024-01-21'', JObj [(''RSI'', JStr ''51'')]),
      (''2024-01-20'', JObj [(''RSI'', JStr ''50'')]),
      (''2024-01-19'', JObj [(''RSI'', JStr ''49'')]),
      (''2024-01-18'', JObj [(''RSI'', JStr ''48'')]),
      (''2024-01-17'', JObj [(''RSI'', JStr ''47'')]),
      (''2024-01-16'', JObj [(''RSI'', JStr ''46'')]),
      (''2024-01-15'', JObj [(''RSI'', JStr ''45'')]),
      (''2024-01-14'', JObj [(''RSI'', JStr ''44'')]),
      (''2024-01-13'', JObj [(''RSI'', JStr ''43'')]),
      (''2024-01-12'', JObj [(''RSI'', JStr ''42'')]),
      (''2024-01-11'', JObj [(''RSI'', JStr ''41'')]),
      (''2024-01-10'', JObj [(''RSI'', JStr ''40'')]),
      (''2024-01-09'', JObj [(''RSI'', JStr ''39'')]),
      (''2024-01-08'', JObj [(''RSI'', JStr ''38'')]),
      (''2024-01-07'', JObj [(''RSI'', JStr ''37'')]),
      (''2024-01-06'', JObj [(''RSI'', JStr ''36'')]),
      (''2024-01-05'', JObj [(''RSI'', JStr ''35'')]),
      (''2024-01-04'', JObj [(''RSI'', JStr ''34'')]),
      (''2024-01-03'', JObj [(''RSI'', JStr ''33'')]),
      (''2024-01-02'', JObj [(''RSI'', JStr ''32'')]),
      (''2024-01-01'', JObj [(''RSI'', JStr ''31'')])])])
   = ([St_dataframe
        \<lparr>index_name = Some ''Date'', index = [L_str ''2024-01-21'', L_str ''2024-01-20'', L_str ''2024-01-19'', L_str ''2024-01-18'', L_str ''2024-01-17'', L_str ''2024-01-16'', L_str ''2024-01-15'', L_str ''2024-01-14'', L_str ''2024-01-13'', L_str ''2024-01-12'', L_str ''2024-01-11'', L_str ''2024-01-10'', L_str ''2024-01-09'', L_str ''2024-01-08'', L_str ''2024-01-07'', L_str ''2024-01-06'', L_str ''2024-01-05'', L_str ''2024-01-04'', L_str ''2024-01-03'', L_str ''2024-01-02''],
      columns = [L_str ''RSI''], cells = [[Number 51], [Number 50], [Number 49], [Number 48], [Number 47], [Number 46], [Number 45], [Number 44], [Number 43], [Number 42], [Number 41], [Number 40], [Number 39], [Number 38], [Number 37], [Number 36], [Number 35], [Number 34], [Number 33], [Number 32]]\<rparr>,
       St_line_chart
        \<lparr>index_name = Some ''Date'', index = [L_str ''2024-01-21'', L_str ''2024-01-20'', L_str ''2024-01-19'', L_str ''2024-01-18'', L_str ''2024-01-17'', L_str ''2024-01-16'', L_str ''2024-01-15'', L_str ''2024-01-14'', L_str ''2024-01-13'', L_str ''2024-01-12'', L_str ''2024-01-11'', L_str ''2024-01-10'', L_str ''2024-01-09'', L_str ''2024-01-08'', L_str ''2024-01-07'', L_str ''2024-01-06'', L_str ''2024-01-05'', L_str ''2024-01-04'', L_str ''2024-01-03'', L_str ''2024-01-02'', L_str ''2024-01-01''],
      columns = [L_str ''RSI''], cells = [[Number 51], [Number 50], [Number 49], [Number 48], [Number 47], [Number 46], [Number 45], [Number 44], [Number 43], [Number 42], [Number 41], [Number 40], [Number 39], [Number 38], [Number 37], [Number 36], [Number 35], [Number 34], [Number 33], [Number 32], [Number 31]]\<rparr>,
       St_caption rsi_caption], Returns ())
   \<and> time_series_daily_branch (JObj [(''Time Series (Daily)'', JObj
     [(''2024-01-03'', JObj [(''1. open'', JStr ''10.0''), (''4. close'', JStr ''11.5'')]),
      (''2024-01-02'', JObj [(''1. open'', JStr ''9.0''), (''4. close'', JStr ''10.0'')]),
      (''2024-01-01'', JObj [(''4. close'', JStr ''9.5''), (''1. open'', JStr ''n/a'')])])])
   = ([St_dataframe
        \<lparr>index_name = Some ''Date'', index = [L_str ''2024-01-03'', L_str ''2024-01-02'', L_str ''2024-01-01''],
      columns = [L_str ''open'', L_str ''close''],
      cells = [[Number 10, Number (23 / 2)], [Number 9, Number 10], [NaN, Number (19 / 2)]]\<rparr>,
       St_line_chart
        \<lparr>index_name = Some ''Date'', index = [L_str ''2024-01-03'', L_str ''2024-01-02'', L_str ''2024-01-01''],
      columns = [L_str ''close''],
      cells = [[Number (23 / 2)], [Number 10], [Number (19 / 2)]]\<rparr>], Returns ())"
proof -
  let ?sma = "JObj
     [(''2024-01-22'', JObj [(''SMA'', JStr ''122'')]),
      (''2024-01-21'', JObj [(''SMA'', JStr ''121'')]),
      (''2024-01-20'', JObj [(''SMA'', JStr ''120'')]),
      (''2024-01-19'', JObj [(''SMA'', JStr ''119'')]),
      (''2024-01-18'', JObj [(''SMA'', JStr ''118'')]),
      (''2024-01-17'', JObj [(''SMA'', JStr ''117'')]),
      (''2024-01-16'', JObj [(''SMA'', JStr ''116'')]),
      (''2024-01-15'', JObj [(''SMA'', JStr ''115'')]),
      (''2024-01-14'', JObj [(''SMA'', JStr ''114'')]),
      (''2024-01-13'', JObj [(''SMA'', JStr ''113'')]),
      (''2024-01-12'', JObj [(''SMA'', JStr ''112'')]),
      (''2024-01-11'', JObj [(''SMA'', JStr ''111'')]),
      (''2024-01-10'', JObj [(''SMA'', JStr ''110'')]),
      (''2024-01-09'', JObj [(''SMA'', JStr ''109'')]),
      (''2024-01-08'', JObj [(''SMA'', JStr ''108'')]),
      (''2024-01-07'', JObj [(''SMA'', JStr ''107'')]),
      (''2024-01-06'', JObj [(''SMA'', JStr ''106'')]),
      (''2024-01-05'', JObj [(''SMA'', JStr ''105'')]),
      (''2024-01-04'', JObj [(''SMA'', JStr ''104'')]),
      (''2024-01-03'', JObj [(''SMA'', JStr ''103'')]),
      (''2024-01-02'', JObj [(''SMA'', JStr ''102'')]),
      (''2024-01-01'', JObj [(''SMA'', JStr ''101'')])]"
  let ?sdf = "\<lparr>index_name = Some ''Date'', index = [L_str ''2024-01-22'', L_str ''2024-01-21'', L_str ''2024-01-20'', L_str ''2024-01-19'', L_str ''2024-01-18'', L_str ''2024-01-17'', L_str ''2024-01-16'', L_str ''2024-01-15'', L_str ''2024-01-14'', L_str ''2024-01-13'', L_str ''2024-01-12'', L_str ''2024-01-11'', L_str ''2024-01-10'', L_str ''2024-01-09'', L_str ''2024-01-08'', L_str ''2024-01-07'', L_str ''2024-01-06'', L_str ''2024-01-05'', L_str ''2024-01-04'', L_str ''2024-01-03'', L_str ''2024-01-02'', L_str ''2024-01-01''],
      columns = [L_str ''SMA''], cells = [[Number 122], [Number 121], [Number 120], [Number 119], [Number 118], [Number 117], [Number 116], [Number 115], [Number 114], [Number 113], [Number 112], [Number 111], [Number 110], [Number 109], [Number 108], [Number 107], [Number 106], [Number 105], [Number 104], [Number 103], [Number 102], [Number 101]]\<rparr>"
  let ?rsi = "JObj
     [(''2024-01-21'', JObj [(''RSI'', JStr ''51'')]),
      (''2024-01-20'', JObj [(''RSI'', JStr ''50'')]),
      (''2024-01-19'', JObj [(''RSI'', JStr ''49'')]),
      (''2024-01-18'', JObj [(''RSI'', JStr ''48'')]),
      (''2024-01-17'', JObj [(''RSI'', JStr ''47'')]),
      (''2024-01-16'', JObj [(''RSI'', JStr ''46'')]),
      (''2024-01-15'', JObj [(''RSI'', JStr ''45'')]),
      (''2024-01-14'', JObj [(''RSI'', JStr ''44'')]),
      (''2024-01-13'', JObj [(''RSI'', JStr ''43'')]),
      (''2024-01-12'', JObj [(''RSI'', JStr ''42'')]),
      (''2024-01-11'', JObj [(''RSI'', JStr ''41'')]),
      (''2024-01-10'', JObj [(''RSI'', JStr ''40'')]),
      (''2024-01-09'', JObj [(''RSI'', JStr ''39'')]),
      (''2024-01-08'', JObj [(''RSI'', JStr ''38'')]),
      (''2024-01-07'', JObj [(''RSI'', JStr ''37'')]),
      (''2024-01-06'', JObj [(''RSI'', JStr ''36'')]),
      (''2024-01-05'', JObj [(''RSI'', JStr ''35'')]),
      (''2024-01-04'', JObj [(''RSI'', JStr ''34'')]),
      (''2024-01-03'', JObj [(''RSI'', JStr ''33'')]),
      (''2024-01-02'', JObj [(''RSI'', JStr ''32'')]),
      (''2024-01-01'', JObj [(''RSI'', JStr ''31'')])]"
  let ?rdf = "\<lparr>index_name = Some ''Date'', index = [L_str ''2024-01-21'', L_str ''2024-01-20'', L_str ''2024-01-19'', L_str ''2024-01-18'', L_str ''2024-01-17'', L_str ''2024-01-16'', L_str ''2024-01-15'', L_str ''2024-01-14'', L_str ''2024-01-13'', L_str ''2024-01-12'', L_str ''2024-01-11'', L_str ''2024-01-10'', L_str ''2024-01-09'', L_str ''2024-01-08'', L_str ''2024-01-07'', L_str ''2024-01-06'', L_str ''2024-01-05'', L_str ''2024-01-04'', L_str ''2024-01-03'', L_str ''2024-01-02'', L_str ''2024-01-01''],
      columns = [L_str ''RSI''], cells = [[Number 51], [Number 50], [Number 49], [Number 48], [Number 47], [Number 46], [Number 45], [Number 44], [Number 43], [Number 42], [Number 41], [Number 40], [Number 39], [Number 38], [Number 37], [Number 36], [Number 35], [Number 34], [Number 33], [Number 32], [Number 31]]\<rparr>"
  let ?tsd = "JObj
     [(''2024-01-03'', JObj [(''1. open'', JStr ''10.0''), (''4. close'', JStr ''11.5'')]),
      (''2024-01-02'', JObj [(''1. open'', JStr ''9.0''), (''4. close'', JStr ''10.0'')]),
      (''2024-01-01'', JObj [(''4. close'', JStr ''9.5''), (''1. open'', JStr ''n/a'')])]"
  let ?tdf = "\<lparr>index_name = Some ''Date'', index = [L_str ''2024-01-03'', L_str ''2024-01-02'', L_str ''2024-01-01''],
      columns = [L_str ''open'', L_str ''close''],
      cells = [[Number 10, Number (23 / 2)], [Number 9, Number 10], [NaN, Number (19 / 2)]]\<rparr>"
  have fs: "technical_indicator_frame ''SMA'' ?sma = Returns ?sdf" by code_simp
  have fr: "technical_indicator_frame ''RSI'' ?rsi = Returns ?rdf" by code_simp
  have ft: "time_series_daily_frame ?tsd = Returns ?tdf" by code_simp
  have hs: "head 20 ?sdf = \<lparr>index_name = Some ''Date'', index = [L_str ''2024-01-22'', L_str ''2024-01-21'', L_str ''2024-01-20'', L_str ''2024-01-19'', L_str ''2024-01-18'', L_str ''2024-01-17'', L_str ''2024-01-16'', L_str ''2024-01-15'', L_str ''2024-01-14'', L_str ''2024-01-13'', L_str ''2024-01-12'', L_str ''2024-01-11'', L_str ''2024-01-10'', L_str ''2024-01-09'', L_str ''2024-01-08'', L_str ''2024-01-07'', L_str ''2024-01-06'', L_str ''2024-01-05'', L_str ''2024-01-04'', L_str ''2024-01-03''],
      columns = [L_str ''SMA''], cells = [[Number 122], [Number 121], [Number 120], [Number 119], [Number 118], [Number 117], [Number 116], [Number 115], [Number 114], [Number 113], [Number 112], [Number 111], [Number 110], [Number 109], [Number 108], [Number 107], [Number 106], [Number 105], [Number 104], [Number 103]]\<rparr>" by code_simp
  have hr: "head 20 ?rdf = \<lparr>index_name = Some ''Date'', index = [L_str ''2024-01-21'', L_str ''2024-01-20'', L_str ''2024-01-19'', L_str ''2024-01-18'', L_str ''2024-01-17'', L_str ''2024-01-16'', L_str ''2024-01-15'', L_str ''2024-01-14'', L_str ''2024-01-13'', L_str ''2024-01-12'', L_str ''2024-01-11'', L_str ''2024-01-10'', L_str ''2024-01-09'', L_str ''2024-01-08'', L_str ''2024-01-07'', L_str ''2024-01-06'', L_str ''2024-01-05'', L_str ''2024-01-04'', L_str ''2024-01-03'', L_str ''2024-01-02''],
      columns = [L_str ''RSI''], cells = [[Number 51], [Number 50], [Number 49], [Number 48], [Number 47], [Number 46], [Number 45], [Number 44], [Number 43], [Number 42], [Number 41], [Number 40], [Number 39], [Number 38], [Number 37], [Number 36], [Number 35], [Number 34], [Number 33], [Number 32]]\<rparr>" by code_simp
  have ht: "head 20 ?tdf = ?tdf" by code_simp
  have n: "str_nat 20 = ''20''" by code_simp
  have gt: "getitem_column (L_str ''close'') ?tdf = Returns \<lparr>index_name = Some ''Date'', index = [L_str ''2024-01-03'', L_str ''2024-01-02'', L_str ''2024-01-01''],
      columns = [L_str ''close''],
      cells = [[Number (23 / 2)], [Number 10], [Number (19 / 2)]]\<rparr>" by code_simp
  have "sma_branch 20 (JObj [(''Technical Analysis: SMA'', ?sma)])
      = ([St_dataframe (head 20 ?sdf), St_line_chart ?sdf,
          St_caption (''The chart shows the '' @ str_nat 20 @ ''-day Simple Moving Average.'')],
         Returns ())"
    by (rule table_shows_first_twenty_rows [where ts = "?sma" and df = "?sdf",
          THEN conjunct2, THEN conjunct1, rule_format])
       (simp add: fs)
  then have 1: "sma_branch 20 (JObj [(''Technical Analysis: SMA'', ?sma)])
      = ([St_dataframe \<lparr>index_name = Some ''Date'', index = [L_str ''2024-01-22'', L_str ''2024-01-21'', L_str ''2024-01-20'', L_str ''2024-01-19'', L_str ''2024-01-18'', L_str ''2024-01-17'', L_str ''2024-01-16'', L_str ''2024-01-15'', L_str ''2024-01-14'', L_str ''2024-01-13'', L_str ''2024-01-12'', L_str ''2024-01-11'', L_str ''2024-01-10'', L_str ''2024-01-09'', L_str ''2024-01-08'', L_str ''2024-01-07'', L_str ''2024-01-06'', L_str ''2024-01-05'', L_str ''2024-01-04'', L_str ''2024-01-03''],
      columns = [L_str ''SMA''], cells = [[Number 122], [Number 121], [Number 120], [Number 119], [Number 118], [Number 117], [Number 116], [Number 115], [Number 114], [Number 113], [Number 112], [Number 111], [Number 110], [Number 109], [Number 108], [Number 107], [Number 106], [Number 105], [Number 104], [Number 103]]\<rparr>, St_line_chart ?sdf,
          St_caption ''The chart shows the 20-day Simple Moving Average.''], Returns ())"
    by (simp only: hs n append.simps)
  have "rsi_branch (JObj [(''Technical Analysis: RSI'', ?rsi)])
      = ([St_dataframe (head 20 ?rdf), St_line_chart ?rdf, St_caption rsi_caption], Returns ())"
    by (rule table_shows_first_twenty_rows [where ts = "?rsi" and df = "?rdf",
          THEN conjunct2, THEN conjunct2, THEN conjunct1, rule_format])
       (simp add: fr)
  then have 2: "rsi_branch (JObj [(''Technical Analysis: RSI'', ?rsi)])
      = ([St_dataframe \<lparr>index_name = Some ''Date'', index = [L_str ''2024-01-21'', L_str ''2024-01-20'', L_str ''2024-01-19'', L_str ''2024-01-18'', L_str ''2024-01-17'', L_str ''2024-01-16'', L_str ''2024-01-15'', L_str ''2024-01-14'', L_str ''2024-01-13'', L_str ''2024-01-12'', L_str ''2024-01-11'', L_str ''2024-01-10'', L_str ''2024-01-09'', L_str ''2024-01-08'', L_str ''2024-01-07'', L_str ''2024-01-06'', L_str ''2024-01-05'', L_str ''2024-01-04'', L_str ''2024-01-03'', L_str ''2024-01-02''],
      columns = [L_str ''RSI''], cells = [[Number 51], [Number 50], [Number 49], [Number 48], [Number 47], [Number 46], [Number 45], [Number 44], [Number 43], [Number 42], [Number 41], [Number 40], [Number 39], [Number 38], [Number 37], [Number 36], [Number 35], [Number 34], [Number 33], [Number 32]]\<rparr>, St_line_chart ?rdf, St_caption rsi_caption], Returns ())"
    by (simp only: hr)
  have "\<exists>chart. time_series_daily_branch (JObj [(''Time Series (Daily)'', ?tsd)])
                 = ([St_dataframe (head 20 ?tdf), St_line_chart chart], Returns ())
              \<and> index chart = index ?tdf \<and> length (cells chart) = length (cells ?tdf)"
    by (rule table_shows_first_twenty_rows [where ts = "?tsd" and df = "?tdf",
          THEN conjunct1, rule_format])
       (simp add: ft)
  then obtain chart where c: "time_series_daily_branch (JObj [(''Time Series (Daily)'', ?tsd)])
                 = ([St_dataframe ?tdf, St_line_chart chart], Returns ())"
    unfolding ht by blast
  have "time_series_daily_branch (JObj [(''Time Series (Daily)'', ?tsd)])
      = ([St_dataframe (head 20 ?tdf), St_line_chart \<lparr>index_name = Some ''Date'', index = [L_str ''2024-01-03'', L_str ''2024-01-02'', L_str ''2024-01-01''],
      columns = [L_str ''close''],
      cells = [[Number (23 / 2)], [Number 10], [Number (19 / 2)]]\<rparr>], Returns ())"
    by (simp add: time_series_daily_branch_def ft gt)
  with c ht have 3: "time_series_daily_branch (JObj [(''Time Series (Daily)'', ?tsd)])
      = ([St_dataframe ?tdf, St_line_chart \<lparr>index_name = Some ''Date'', index = [L_str ''2024-01-03'', L_str ''2024-01-02'', L_str ''2024-01-01''],
      columns = [L_str ''close''],
      cells = [[Number (23 / 2)], [Number 10], [Number (19 / 2)]]\<rparr>], Returns ())"
    by simp
  from 1 2 3 show ?thesis by blast
qed

end
